theory Spec2Isabelle
  imports Complex_Main
begin

section \<open>Python values shared by the modules\<close>

text \<open>
  Exceptions are values. \<open>ValueError\<close> and \<open>Exception\<close> carry the message the source
  builds; \<open>ZeroDivisionError\<close> is what \<open>int / int\<close> raises on a zero divisor;
  \<open>SdkError\<close> stands for any exception raised inside the vendor SDK (its message is
  whatever the SDK chose). A Python \<open>str\<close> is a list of code points; every code point
  used by the messages below is smaller than 256, so it fits a \<open>char\<close>.
\<close>

datatype py_error =
    ValueError string
  | ZeroDivisionError
  | Exception string
  | SdkError string

fun str_error :: "py_error \<Rightarrow> string" where
  "str_error (ValueError m) = m"
| "str_error ZeroDivisionError = ''division by zero''"
| "str_error (Exception m) = m"
| "str_error (SdkError m) = m"

text \<open>\<open>str(n)\<close> for an integer, as an f-string field \<open>{n}\<close> renders it.\<close>

fun str_nat :: "nat \<Rightarrow> string" where
  "str_nat n =
     (if n < 10 then [''0123456789'' ! n]
      else str_nat (n div 10) @ [''0123456789'' ! (n mod 10)])"

declare str_nat.simps [simp del]

definition str_int :: "int \<Rightarrow> string" where
  "str_int i = (if i < 0 then ''-'' @ str_nat (nat (- i)) else str_nat (nat i))"

definition newline :: string where
  "newline = [CHR 0x0A]"

section \<open>utils.py: backends as the selector sees them\<close>

text \<open>
  A backend object of the SDK, reduced to what \<open>utils.py\<close> reads. An attribute that the
  source probes with \<open>hasattr\<close> is optional: \<open>None\<close> is the absent attribute.
  \<open>status\<close> is the snapshot \<open>backend.status()\<close> returns.
\<close>

record backend_status =
  operational :: "bool option"
  pending_jobs :: "int option"

record backend =
  name :: string
  simulator :: "bool option"
  num_qubits :: int
  status :: backend_status

text \<open>
  A job handle of the SDK: \<open>job_status\<close> is the outcome of \<open>job.status()\<close> and of
  reading the \<open>name\<close> of what it returns (that name, or the exception either step
  raises) and \<open>job_result\<close> the outcome of \<open>job.result()[0].data.meas.get_counts()\<close>. A histogram is a Python
  dictionary from bitstrings to counts, kept as the list of its items.
\<close>

type_synonym histogram = "(string \<times> int) list"

record job =
  job_status :: "py_error + string"
  job_result :: "py_error + histogram"

text \<open>
  A connected service: \<open>backends\<close> is the list \<open>service.backends()\<close> returns and
  \<open>job_of\<close> the outcome of \<open>service.job(job_id)\<close>.
\<close>

record service =
  backends :: "backend list"
  job_of :: "string \<Rightarrow> py_error + job"

text \<open>The dictionary appended to \<open>available_qpus\<close> (keys backend, name, qubits, pending_jobs).\<close>

record qpu_info =
  info_backend :: backend
  info_name :: string
  info_qubits :: int
  info_pending_jobs :: int

text \<open>\<open>hasattr(backend, 'simulator') and not backend.simulator\<close>\<close>

definition is_hardware :: "backend \<Rightarrow> bool" where
  "is_hardware b = (case simulator b of None \<Rightarrow> False | Some s \<Rightarrow> \<not> s)"

text \<open>\<open>status.operational if hasattr(status, 'operational') else True\<close>\<close>

definition operational_of :: "backend_status \<Rightarrow> bool" where
  "operational_of st = (case operational st of Some v \<Rightarrow> v | None \<Rightarrow> True)"

text \<open>\<open>status.pending_jobs if hasattr(status, 'pending_jobs') else 0\<close>\<close>

definition pending_of :: "backend_status \<Rightarrow> int" where
  "pending_of st = (case pending_jobs st of Some n \<Rightarrow> n | None \<Rightarrow> 0)"

text \<open>\<open>list_available_qpus\<close>: the hardware backends, in the order the service lists them.\<close>

definition list_available_qpus :: "service \<Rightarrow> backend list" where
  "list_available_qpus service = filter is_hardware (backends service)"

text \<open>The first loop of \<open>select_best_qpu\<close> (lines 142 to 157), building \<open>available_qpus\<close>.\<close>

fun available_qpus :: "backend list \<Rightarrow> int \<Rightarrow> qpu_info list" where
  "available_qpus [] min_qubits = []"
| "available_qpus (b # bs) min_qubits =
     (if is_hardware b then
        if num_qubits b \<ge> min_qubits then
          if operational_of (status b) then
            \<lparr>info_backend = b, info_name = name b, info_qubits = num_qubits b,
              info_pending_jobs = pending_of (status b)\<rparr> # available_qpus bs min_qubits
          else available_qpus bs min_qubits
        else available_qpus bs min_qubits
      else available_qpus bs min_qubits)"

text \<open>The nested loops over the preferences and the candidates (lines 167 to 173).\<close>

fun find_preferred :: "string list \<Rightarrow> qpu_info list \<Rightarrow> qpu_info option" where
  "find_preferred [] qpus = None"
| "find_preferred (preferred_name # rest) qpus =
     (case find (\<lambda>qpu_info. info_name qpu_info = preferred_name) qpus of
        Some qpu_info \<Rightarrow> Some qpu_info
      | None \<Rightarrow> find_preferred rest qpus)"

text \<open>
  \<open>min(xs, key=f)\<close> on a non-empty list: the running best is replaced only by a strictly
  smaller key, so the first minimal element wins.
\<close>

fun min_by_key :: "('a \<Rightarrow> int) \<Rightarrow> 'a \<Rightarrow> 'a list \<Rightarrow> 'a" where
  "min_by_key f best [] = best"
| "min_by_key f best (x # xs) = min_by_key f (if f x < f best then x else best) xs"

definition selection_error :: "int \<Rightarrow> py_error" where
  "selection_error min_qubits =
     ValueError (''Nenhum QPU operacional encontrado com pelo menos '' @ str_int min_qubits
                 @ '' qubits.'' @ newline
                 @ ''Verifique seu acesso em: https://quantum.ibm.com/'')"

text \<open>
  \<open>select_best_qpu(service, preferred_qpus, min_qubits)\<close>. \<open>preferred_qpus\<close> may be
  \<open>None\<close>, which is as falsy as the empty list: either skips the preference loops.
  The candidate list is matched as \<open>q # qs\<close> once it is known not to be empty, so
  \<open>min\<close> always has a first element to start from.
\<close>

definition select_best_qpu :: "service \<Rightarrow> string list option \<Rightarrow> int \<Rightarrow> py_error + backend" where
  "select_best_qpu service preferred_qpus min_qubits =
     (case available_qpus (backends service) min_qubits of
        [] \<Rightarrow> Inl (selection_error min_qubits)
      | q # qs \<Rightarrow>
          (case (case preferred_qpus of
                   None \<Rightarrow> None
                 | Some prefs \<Rightarrow> if prefs = [] then None else find_preferred prefs (q # qs)) of
             Some qpu_info \<Rightarrow> Inr (info_backend qpu_info)
           | None \<Rightarrow> Inr (info_backend (min_by_key info_pending_jobs q qs))))"

section \<open>utils.py: credentials and connection\<close>

text \<open>
  \<open>load_ibm_credentials\<close>. \<open>environ\<close> is the process environment as \<open>os.getenv\<close> reads it
  once \<open>load_dotenv()\<close> has run. \<open>not api_key\<close> holds for \<open>None\<close> and for the empty string;
  both variables are read before either is tested, and reading has no effect.
\<close>

definition missing_api_key :: py_error where
  "missing_api_key =
     ValueError (''IBM_API_KEY n'' @ [CHR 0xE3] @ ''o encontrada no .env'' @ newline
                 @ ''Configure sua API key em: https://quantum.ibm.com/'')"

definition missing_instance :: py_error where
  "missing_instance =
     ValueError (''QISKIT_IBM_INSTANCE n'' @ [CHR 0xE3] @ ''o encontrada no .env'' @ newline
                 @ ''Configure seu CRN da inst'' @ [CHR 0xE2] @ ''ncia em: https://quantum.ibm.com/'')"

definition load_ibm_credentials :: "(string \<rightharpoonup> string) \<Rightarrow> py_error + (string \<times> string)" where
  "load_ibm_credentials environ =
     (case environ ''IBM_API_KEY'' of
        None \<Rightarrow> Inl missing_api_key
      | Some api_key \<Rightarrow>
          if api_key = [] then Inl missing_api_key
          else
            (case environ ''QISKIT_IBM_INSTANCE'' of
               None \<Rightarrow> Inl missing_instance
             | Some instance \<Rightarrow>
                 if instance = [] then Inl missing_instance
                 else Inr (api_key, instance)))"

text \<open>
  \<open>get_qiskit_service\<close>. The SDK enters as the outcomes of its three calls: the
  constructor \<open>QiskitRuntimeService(channel, instance)\<close>, \<open>save_account(token, instance)\<close>,
  and the constructor once more after saving.
\<close>

definition connection_error :: "py_error \<Rightarrow> py_error" where
  "connection_error save_error =
     Exception (''Erro ao conectar com IBM Quantum: '' @ str_error save_error @ newline
                @ ''Verifique suas credenciais no .env'')"

definition get_qiskit_service ::
  "(string \<rightharpoonup> string) \<Rightarrow> (string \<Rightarrow> py_error + service) \<Rightarrow>
   (string \<Rightarrow> string \<Rightarrow> py_error + unit) \<Rightarrow> (string \<Rightarrow> py_error + service) \<Rightarrow>
   py_error + service" where
  "get_qiskit_service environ connect save_account reconnect =
     (case load_ibm_credentials environ of
        Inl e \<Rightarrow> Inl e
      | Inr (api_key, instance) \<Rightarrow>
          (case connect instance of
             Inr service \<Rightarrow> Inr service
           | Inl e \<Rightarrow>
               (case save_account api_key instance of
                  Inl save_error \<Rightarrow> Inl (connection_error save_error)
                | Inr u \<Rightarrow>
                    (case reconnect instance of
                       Inl save_error \<Rightarrow> Inl (connection_error save_error)
                     | Inr service \<Rightarrow> Inr service))))"

section \<open>run\_qpu.py: analysing and retrieving results\<close>

text \<open>
  A Python \<open>float\<close> is a double. The model keeps a float as the real number it denotes
  and takes the rounding of a real to the nearest double as the parameter \<open>fl\<close>: a
  literal such as \<open>0.80\<close> denotes \<open>fl 0.80\<close>, and \<open>a / b\<close> on two integers denotes
  \<open>fl\<close> of the exact quotient (Python rounds that quotient once). Of the rounding only
  \<open>rounding fl\<close> is used: it is monotone and leaves 0 and 1 as they are, which
  rounding to nearest does.
\<close>

definition rounding :: "(real \<Rightarrow> real) \<Rightarrow> bool" where
  "rounding fl = ((\<forall>x y. x \<le> y \<longrightarrow> fl x \<le> fl y) \<and> fl 0 = 0 \<and> fl 1 = 1)"

text \<open>\<open>a / b\<close> on two Python integers: \<open>ZeroDivisionError\<close> on a zero divisor.\<close>

definition py_truediv :: "(real \<Rightarrow> real) \<Rightarrow> int \<Rightarrow> int \<Rightarrow> py_error + real" where
  "py_truediv fl a b =
     (if b = 0 then Inl ZeroDivisionError else Inr (fl (real_of_int a / real_of_int b)))"

text \<open>\<open>counts.get(key, default)\<close> and \<open>sum(counts.values())\<close> on the items of a dictionary.\<close>

definition dict_get :: "('k \<times> 'v) list \<Rightarrow> 'k \<Rightarrow> 'v \<Rightarrow> 'v" where
  "dict_get d k dflt = (case map_of d k of Some v \<Rightarrow> v | None \<Rightarrow> dflt)"

definition sum_values :: "('k \<times> int) list \<Rightarrow> int" where
  "sum_values d = sum_list (map snd d)"

text \<open>The branch of the interpretation chain (lines 164 to 175) that prints.\<close>

datatype band = Excellent | Good | Moderate | Poor

definition fidelity_band :: "(real \<Rightarrow> real) \<Rightarrow> real \<Rightarrow> band" where
  "fidelity_band fl fidelity =
     (if fidelity \<ge> fl 0.80 then Excellent
      else if fidelity \<ge> fl 0.60 then Good
      else if fidelity \<ge> fl 0.40 then Moderate
      else Poor)"

text \<open>
  \<open>analyze_results(counts, backend_name, expected_state)\<close>: the returned fidelity together
  with the interpretation branch taken. The remaining console output is not kept. The
  first division is the one of line 144; with a non-zero total the divisions of the
  ranking loop cannot fail.
\<close>

record analysis =
  returned_fidelity :: real
  printed_band :: band

definition analyze_results ::
  "(real \<Rightarrow> real) \<Rightarrow> histogram \<Rightarrow> string \<Rightarrow> string \<Rightarrow> py_error + analysis" where
  "analyze_results fl counts backend_name expected_state =
     (let total_shots = sum_values counts;
          correct_count = dict_get counts expected_state 0
      in case py_truediv fl correct_count total_shots of
           Inl e \<Rightarrow> Inl e
         | Inr fidelity \<Rightarrow>
             Inr \<lparr>returned_fidelity = fidelity, printed_band = fidelity_band fl fidelity\<rparr>)"

text \<open>
  \<open>retrieve_job(job_id, service)\<close>. The result \<open>None\<close> is Python's \<open>None\<close> for a job that
  is not done. \<open>new_service\<close> is the outcome of \<open>get_qiskit_service()\<close>, called only when
  no service is passed, outside the \<open>try\<close>. The handler prints and re-raises, so an
  exception of the body leaves the function as it is.
\<close>

definition retrieve_job_body :: "string \<Rightarrow> service \<Rightarrow> py_error + histogram option" where
  "retrieve_job_body job_id service =
     (case job_of service job_id of
        Inl e \<Rightarrow> Inl e
      | Inr job \<Rightarrow>
          (case job_status job of
             Inl e \<Rightarrow> Inl e
           | Inr status_name \<Rightarrow>
               if status_name = ''DONE'' then
                 (case job_result job of
                    Inl e \<Rightarrow> Inl e
                  | Inr counts \<Rightarrow> Inr (Some counts))
               else Inr None))"

definition retrieve_job ::
  "(py_error + service) \<Rightarrow> string \<Rightarrow> service option \<Rightarrow> py_error + histogram option" where
  "retrieve_job new_service job_id service =
     (case (case service of None \<Rightarrow> new_service | Some s \<Rightarrow> Inr s) of
        Inl e \<Rightarrow> Inl e
      | Inr s \<Rightarrow>
          (case retrieve_job_body job_id s of
             Inl e \<Rightarrow> Inl e
           | Inr r \<Rightarrow> Inr r))"

section \<open>Example inputs\<close>

text \<open>The scenarios of the specification, and a few services beside them.\<close>

definition ibm_real2 :: backend where
  "ibm_real2 = \<lparr>name = ''ibm_real2'', simulator = Some False, num_qubits = 5,
                 status = \<lparr>operational = Some True, pending_jobs = Some 9\<rparr>\<rparr>"

definition ibm_real3 :: backend where
  "ibm_real3 = \<lparr>name = ''ibm_real3'', simulator = Some False, num_qubits = 5,
                 status = \<lparr>operational = Some True, pending_jobs = Some 1\<rparr>\<rparr>"

definition ibm_down :: backend where
  "ibm_down = \<lparr>name = ''ibm_down'', simulator = Some False, num_qubits = 7,
                status = \<lparr>operational = Some False, pending_jobs = Some 0\<rparr>\<rparr>"

definition ibm_small :: backend where
  "ibm_small = \<lparr>name = ''ibm_small'', simulator = Some False, num_qubits = 2,
                 status = \<lparr>operational = Some True, pending_jobs = Some 0\<rparr>\<rparr>"

definition ibm_tiny :: backend where
  "ibm_tiny = \<lparr>name = ''ibm_tiny'', simulator = Some False, num_qubits = 2,
                status = \<lparr>operational = Some True, pending_jobs = Some 3\<rparr>\<rparr>"

definition no_simulator_attr :: backend where
  "no_simulator_attr = \<lparr>name = ''ibm_plain'', simulator = None, num_qubits = 5,
                         status = \<lparr>operational = Some True, pending_jobs = Some 0\<rparr>\<rparr>"

definition bare_status :: backend where
  "bare_status = \<lparr>name = ''ibm_bare'', simulator = Some False, num_qubits = 5,
                   status = \<lparr>operational = None, pending_jobs = None\<rparr>\<rparr>"

definition no_jobs :: "string \<Rightarrow> py_error + job" where
  "no_jobs job_id = Inl (SdkError ''job not found'')"

definition scenario_service :: service where
  "scenario_service = \<lparr>backends = [ibm_real2, ibm_real3], job_of = no_jobs\<rparr>"

definition mixed_service :: service where
  "mixed_service = \<lparr>backends = [ibm_down, ibm_small, ibm_real2, ibm_real3], job_of = no_jobs\<rparr>"

definition small_service :: service where
  "small_service = \<lparr>backends = [ibm_small, ibm_tiny], job_of = no_jobs\<rparr>"

definition bare_service :: service where
  "bare_service = \<lparr>backends = [no_simulator_attr, ibm_real3, bare_status], job_of = no_jobs\<rparr>"

definition grover_counts :: histogram where
  "grover_counts = [(''11'', 820), (''00'', 60), (''01'', 70), (''10'', 50)]"

definition done_job :: job where
  "done_job = \<lparr>job_status = Inr ''DONE'', job_result = Inr grover_counts\<rparr>"

definition running_job :: job where
  "running_job = \<lparr>job_status = Inr ''RUNNING'', job_result = Inl (SdkError ''no result'')\<rparr>"

definition job_service :: service where
  "job_service =
     \<lparr>backends = [ibm_real2],
      job_of = (\<lambda>job_id. if job_id = ''job-done'' then Inr done_job
                          else if job_id = ''job-running'' then Inr running_job
                          else Inl (SdkError ''job not found''))\<rparr>"

definition full_environ :: "string \<rightharpoonup> string" where
  "full_environ = [''IBM_API_KEY'' \<mapsto> ''k3y'', ''QISKIT_IBM_INSTANCE'' \<mapsto> ''crn:v1:demo'']"

definition keyless_environ :: "string \<rightharpoonup> string" where
  "keyless_environ = [''QISKIT_IBM_INSTANCE'' \<mapsto> ''crn:v1:demo'']"

definition blank_instance_environ :: "string \<rightharpoonup> string" where
  "blank_instance_environ = [''IBM_API_KEY'' \<mapsto> ''k3y'', ''QISKIT_IBM_INSTANCE'' \<mapsto> []]"

section \<open>Facts about the candidate list\<close>

lemma available_qpus_member:
  "q \<in> set (available_qpus bs mq) \<Longrightarrow>
     info_backend q \<in> set bs \<and> is_hardware (info_backend q)
     \<and> mq \<le> num_qubits (info_backend q) \<and> operational_of (status (info_backend q))
     \<and> info_name q = name (info_backend q)
     \<and> info_pending_jobs q = pending_of (status (info_backend q))"
  by (induction bs) (auto split: if_splits)

lemma available_qpus_complete:
  "b \<in> set bs \<Longrightarrow> is_hardware b \<Longrightarrow> mq \<le> num_qubits b \<Longrightarrow> operational_of (status b) \<Longrightarrow>
     b \<in> info_backend ` set (available_qpus bs mq)"
  by (induction bs) (auto simp: image_iff)

lemma available_qpus_empty:
  "(available_qpus bs mq = []) =
     (\<forall>b\<in>set bs. \<not> (is_hardware b \<and> mq \<le> num_qubits b \<and> operational_of (status b)))"
  by (induction bs) auto

lemma find_result: "find P xs = Some x \<Longrightarrow> x \<in> set xs \<and> P x"
  by (induction xs) (auto split: if_splits)

lemma find_preferred_member: "find_preferred ps qs = Some q \<Longrightarrow> q \<in> set qs"
  by (induction ps) (auto dest: find_result split: option.splits)

lemma find_preferred_none:
  "(find_preferred ps qs = None) = (\<forall>p\<in>set ps. \<forall>q\<in>set qs. info_name q \<noteq> p)"
  by (induction ps) (auto simp: find_None_iff dest: find_result split: option.splits)

lemma find_first_split:
  "\<forall>x\<in>set xs. \<not> P x \<Longrightarrow> P y \<Longrightarrow> find P (xs @ y # ys) = Some y"
  by (induction xs) auto

lemma find_preferred_first:
  assumes "\<forall>p\<in>set before. \<forall>q\<in>set qs. info_name q \<noteq> p"
    and "qs = earlier @ qpu # later"
    and "info_name qpu = preferred_name"
    and "\<forall>q\<in>set earlier. info_name q \<noteq> preferred_name"
  shows "find_preferred (before @ preferred_name # rest) qs = Some qpu"
  using assms(1)
proof (induction before)
  case Nil
  from assms(2-4) show ?case
    by (simp add: find_first_split)
next
  case (Cons p ps)
  then have "find (\<lambda>q. info_name q = p) qs = None"
    by (simp add: find_None_iff)
  with Cons show ?case by simp
qed

lemma min_by_key_member: "min_by_key f b xs \<in> set (b # xs)"
  by (induction xs arbitrary: b) (auto split: if_splits)

lemma min_by_key_le_best: "f (min_by_key f b xs) \<le> f b"
proof (induction xs arbitrary: b)
  case Nil
  show ?case by simp
next
  case (Cons x xs)
  have "f (min_by_key f (if f x < f b then x else b) xs) \<le> f (if f x < f b then x else b)"
    by (rule Cons.IH)
  then show ?case by (auto split: if_splits)
qed

lemma min_by_key_least: "x \<in> set (b # xs) \<Longrightarrow> f (min_by_key f b xs) \<le> f x"
proof (induction xs arbitrary: b)
  case Nil
  then show ?case by simp
next
  case (Cons y ys)
  let ?b' = "if f y < f b then y else b"
  have best: "f (min_by_key f ?b' ys) \<le> f ?b'"
    by (rule min_by_key_le_best)
  from Cons.prems consider "x = b" | "x = y" | "x \<in> set ys" by auto
  then show ?case
  proof cases
    case 1
    with best show ?thesis by (auto split: if_splits)
  next
    case 2
    with best show ?thesis by (auto split: if_splits)
  next
    case 3
    then have "f (min_by_key f ?b' ys) \<le> f x"
      by (intro Cons.IH) simp
    then show ?thesis by simp
  qed
qed

lemma select_best_qpu_candidate:
  assumes "select_best_qpu service preferred_qpus min_qubits = Inr b"
  shows "\<exists>q\<in>set (available_qpus (backends service) min_qubits). info_backend q = b"
proof (cases "available_qpus (backends service) min_qubits")
  case Nil
  with assms show ?thesis by (simp add: select_best_qpu_def)
next
  case (Cons q qs)
  show ?thesis
  proof (cases "case preferred_qpus of None \<Rightarrow> None
      | Some prefs \<Rightarrow> if prefs = [] then None else find_preferred prefs (q # qs)")
    case None
    with assms Cons have "b = info_backend (min_by_key info_pending_jobs q qs)"
      by (simp add: select_best_qpu_def)
    with Cons min_by_key_member [of info_pending_jobs q qs] show ?thesis
      by auto
  next
    case (Some qpu)
    with assms Cons have b: "b = info_backend qpu"
      by (simp add: select_best_qpu_def)
    from Some have "qpu \<in> set (q # qs)"
      by (auto split: option.splits if_splits dest: find_preferred_member)
    with b Cons show ?thesis by auto
  qed
qed

lemma select_best_qpu_unmatched:
  assumes "available_qpus (backends service) min_qubits = q # qs"
    and "\<forall>prefs. preferred_qpus = Some prefs \<longrightarrow>
           (\<forall>p\<in>set prefs. \<forall>c\<in>set (q # qs). info_name c \<noteq> p)"
  shows "select_best_qpu service preferred_qpus min_qubits =
           Inr (info_backend (min_by_key info_pending_jobs q qs))"
proof -
  have "(case preferred_qpus of None \<Rightarrow> None
      | Some prefs \<Rightarrow> if prefs = [] then None else find_preferred prefs (q # qs)) = None"
    using assms(2) by (cases preferred_qpus) (simp_all add: find_preferred_none)
  with assms(1) show ?thesis
    by (simp add: select_best_qpu_def)
qed

lemmas fixture_defs =
  ibm_real2_def ibm_real3_def ibm_down_def ibm_small_def ibm_tiny_def no_simulator_attr_def
  bare_status_def scenario_service_def mixed_service_def small_service_def bare_service_def
  is_hardware_def operational_of_def pending_of_def

lemma select_best_qpu_first_match:
  assumes "preferred_qpus = Some (before @ preferred_name # rest)"
    and "\<forall>p\<in>set before. \<forall>q\<in>set (available_qpus (backends service) min_qubits). info_name q \<noteq> p"
    and "available_qpus (backends service) min_qubits = earlier @ qpu # later"
    and "info_name qpu = preferred_name"
    and "\<forall>q\<in>set earlier. info_name q \<noteq> preferred_name"
  shows "select_best_qpu service preferred_qpus min_qubits = Inr (info_backend qpu)"
proof -
  let ?qs = "available_qpus (backends service) min_qubits"
  have found: "find_preferred (before @ preferred_name # rest) ?qs = Some qpu"
    using assms(2-5) by (rule find_preferred_first)
  from assms(3) have "?qs \<noteq> []"
    by simp
  then obtain c cs where "?qs = c # cs"
    by (cases ?qs) auto
  with found assms(1) show ?thesis
    by (simp add: select_best_qpu_def)
qed

lemma get_qiskit_service_errors:
  assumes "get_qiskit_service environ connect save_account reconnect = Inl e"
  shows "e = missing_api_key \<or> e = missing_instance \<or> (\<exists>cause. e = connection_error cause)"
proof (cases "load_ibm_credentials environ")
  case (Inl c)
  with assms have "e = c"
    by (simp add: get_qiskit_service_def)
  with Inl show ?thesis
    by (auto simp: load_ibm_credentials_def split: option.splits if_splits)
next
  case (Inr creds)
  with assms show ?thesis
    by (auto simp: get_qiskit_service_def split: prod.splits sum.splits)
qed

section \<open>Selection\<close>

text \<open>
  Claim C1. When the preference list is non-empty and some preferred name equals the name
  of a surviving candidate, \<open>select_best_qpu\<close> returns the first such match: the
  preference list splits at the earliest preferred name that matches at all (the names
  in \<open>before\<close> were scanned in vain), the candidate list splits at the earliest
  candidate of that name, and that candidate's backend is returned. The pending-job
  counts play no part, so the match wins even over a candidate with a strictly shorter
  queue, as in the scenario of the specification.
\<close>

theorem select_best_qpu_preferred_first:
  assumes "preferred_qpus = Some prefs"
    and "\<exists>p\<in>set prefs. \<exists>q\<in>set (available_qpus (backends service) min_qubits). info_name q = p"
  shows "\<exists>before preferred_name rest earlier qpu later.
           prefs = before @ preferred_name # rest
           \<and> (\<forall>p\<in>set before.
                 \<forall>q\<in>set (available_qpus (backends service) min_qubits). info_name q \<noteq> p)
           \<and> available_qpus (backends service) min_qubits = earlier @ qpu # later
           \<and> info_name qpu = preferred_name
           \<and> (\<forall>q\<in>set earlier. info_name q \<noteq> preferred_name)
           \<and> select_best_qpu service preferred_qpus min_qubits = Inr (info_backend qpu)"
proof -
  let ?qs = "available_qpus (backends service) min_qubits"
  let ?matches = "\<lambda>p. \<exists>q\<in>set ?qs. info_name q = p"
  from assms(2) have "\<exists>p\<in>set prefs. ?matches p" .
  then obtain before preferred_name rest where
    prefs: "prefs = before @ preferred_name # rest" and
    hit: "?matches preferred_name" and
    vain: "\<forall>p\<in>set before. \<not> ?matches p"
    using split_list_first_prop [of prefs ?matches] by blast
  from hit have "\<exists>q\<in>set ?qs. info_name q = preferred_name" .
  then obtain earlier qpu later where
    qs: "?qs = earlier @ qpu # later" and
    named: "info_name qpu = preferred_name" and
    first: "\<forall>q\<in>set earlier. info_name q \<noteq> preferred_name"
    using split_list_first_prop [of ?qs "\<lambda>q. info_name q = preferred_name"] by blast
  from vain have vain': "\<forall>p\<in>set before. \<forall>q\<in>set ?qs. info_name q \<noteq> p"
    by blast
  have "select_best_qpu service preferred_qpus min_qubits = Inr (info_backend qpu)"
    using assms(1) prefs vain' qs named first
    by (intro select_best_qpu_first_match [where before = before and rest = rest]) simp_all
  with prefs vain' qs named first show ?thesis
    by blast
qed

theorem select_best_qpu_preferred_first_witness:
  "select_best_qpu scenario_service (Some [''ibm_fake1'', ''ibm_real2'']) 2 = Inr ibm_real2
   \<and> map info_name (available_qpus (backends scenario_service) 2) = [''ibm_real2'', ''ibm_real3'']
   \<and> map info_pending_jobs (available_qpus (backends scenario_service) 2) = [9, 1]"
proof -
  have hit: "\<exists>p\<in>set [''ibm_fake1'', ''ibm_real2''].
      \<exists>q\<in>set (available_qpus (backends scenario_service) 2). info_name q = p"
    by (simp add: fixture_defs)
  from select_best_qpu_preferred_first [OF refl hit]
  show ?thesis
    by (simp add: select_best_qpu_def fixture_defs)
qed



text \<open>
  Claim C3. When the preference list is \<open>None\<close>, empty, or names no surviving candidate,
  and some candidate survived, \<open>select_best_qpu\<close> returns a candidate whose pending-job
  count is the least among all surviving candidates.
\<close>

theorem select_best_qpu_min_queue:
  assumes "\<forall>prefs. preferred_qpus = Some prefs \<longrightarrow>
             (\<forall>p\<in>set prefs. \<forall>c\<in>set (available_qpus (backends service) min_qubits). info_name c \<noteq> p)"
    and "available_qpus (backends service) min_qubits \<noteq> []"
  shows "\<exists>q\<in>set (available_qpus (backends service) min_qubits).
           select_best_qpu service preferred_qpus min_qubits = Inr (info_backend q)
           \<and> (\<forall>c\<in>set (available_qpus (backends service) min_qubits).
                 info_pending_jobs q \<le> info_pending_jobs c)"
proof -
  from assms(2) obtain c cs where av: "available_qpus (backends service) min_qubits = c # cs"
    by (cases "available_qpus (backends service) min_qubits") auto
  let ?best = "min_by_key info_pending_jobs c cs"
  have "select_best_qpu service preferred_qpus min_qubits = Inr (info_backend ?best)"
    using av assms(1) by (intro select_best_qpu_unmatched) simp_all
  moreover have "?best \<in> set (c # cs)"
    by (rule min_by_key_member)
  moreover have "\<forall>x\<in>set (c # cs). info_pending_jobs ?best \<le> info_pending_jobs x"
    by (simp add: min_by_key_least del: min_by_key.simps)
  ultimately show ?thesis
    unfolding av by blast
qed

theorem select_best_qpu_min_queue_witness:
  "select_best_qpu scenario_service (Some [''ibm_fake1'']) 2 = Inr ibm_real3
   \<and> select_best_qpu scenario_service (Some []) 2 = Inr ibm_real3
   \<and> select_best_qpu scenario_service None 2 = Inr ibm_real3
   \<and> map info_pending_jobs (available_qpus (backends scenario_service) 2) = [9, 1]"
proof -
  have av: "available_qpus (backends scenario_service) 2 \<noteq> []"
    by (simp add: fixture_defs)
  have names: "\<forall>prefs. Some [''ibm_fake1''] = Some prefs \<longrightarrow>
      (\<forall>p\<in>set prefs. \<forall>c\<in>set (available_qpus (backends scenario_service) 2). info_name c \<noteq> p)"
    by (simp add: fixture_defs)
  from select_best_qpu_min_queue [OF names av]
  show ?thesis
    by (simp add: select_best_qpu_def fixture_defs)
qed

text \<open>
  Claim C4. When no backend passes the hardware, minimum-qubit and operational tests,
  \<open>select_best_qpu\<close> raises a \<open>ValueError\<close> whose message spells out \<open>min_qubits\<close>; it differs
  from every connection error \<open>get_qiskit_service\<close> raises, which is a plain
  \<open>Exception\<close>.
\<close>

theorem select_best_qpu_no_candidate:
  assumes "\<forall>b\<in>set (backends service).
             \<not> (is_hardware b \<and> num_qubits b \<ge> min_qubits \<and> operational_of (status b))"
  shows "select_best_qpu service preferred_qpus min_qubits = Inl (selection_error min_qubits)
         \<and> selection_error min_qubits =
             ValueError (''Nenhum QPU operacional encontrado com pelo menos ''
                         @ str_int min_qubits @ '' qubits.'' @ newline
                         @ ''Verifique seu acesso em: https://quantum.ibm.com/'')
         \<and> (\<forall>e. selection_error min_qubits \<noteq> connection_error e)"
proof -
  from assms have "available_qpus (backends service) min_qubits = []"
    by (simp add: available_qpus_empty)
  then show ?thesis
    by (simp add: select_best_qpu_def selection_error_def connection_error_def)
qed

theorem select_best_qpu_no_candidate_witness:
  "select_best_qpu small_service (Some [''ibm_small'']) 5 =
     Inl (ValueError (''Nenhum QPU operacional encontrado com pelo menos 5 qubits.'' @ newline
                      @ ''Verifique seu acesso em: https://quantum.ibm.com/''))
   \<and> map num_qubits (backends small_service) = [2, 2]"
proof -
  have none: "\<forall>b\<in>set (backends small_service).
      \<not> (is_hardware b \<and> num_qubits b \<ge> 5 \<and> operational_of (status b))"
    by (simp add: fixture_defs)
  from select_best_qpu_no_candidate [OF none, of "Some [''ibm_small'']"]
  show ?thesis
    by (simp add: selection_error_def str_int_def str_nat.simps fixture_defs)
qed

section \<open>Facts about histograms\<close>

lemma map_of_le_sum_values:
  "\<forall>(k, c)\<in>set d. 0 \<le> c \<Longrightarrow> map_of d k = Some v \<Longrightarrow> 0 \<le> v \<and> v \<le> sum_values d"
proof (induction d)
  case Nil
  then show ?case by simp
next
  case (Cons kc d)
  obtain k' c' where kc: "kc = (k', c')" by (cases kc)
  from Cons.prems(1) have nonneg: "0 \<le> sum_values d"
    unfolding sum_values_def by (intro sum_list_nonneg) auto
  show ?case
  proof (cases "k' = k")
    case True
    with Cons.prems kc nonneg show ?thesis
      by (auto simp: sum_values_def)
  next
    case False
    with Cons.prems kc have "0 \<le> v \<and> v \<le> sum_values d"
      by (intro Cons.IH) auto
    with Cons.prems(1) kc show ?thesis
      by (auto simp: sum_values_def)
  qed
qed

lemma dict_get_bounds:
  assumes "\<forall>(k, c)\<in>set d. 0 \<le> c" and "0 < sum_values d"
  shows "0 \<le> dict_get d k 0 \<and> dict_get d k 0 \<le> sum_values d"
proof (cases "map_of d k")
  case None
  with assms(2) show ?thesis by (simp add: dict_get_def)
next
  case (Some v)
  with map_of_le_sum_values [OF assms(1) Some] show ?thesis
    by (simp add: dict_get_def)
qed

lemma rounding_mono: "rounding fl \<Longrightarrow> x \<le> y \<Longrightarrow> fl x \<le> fl y"
  by (simp add: rounding_def)

lemma fidelity_band_cases:
  assumes "rounding fl"
  shows "(fidelity_band fl f = Excellent) = (f \<ge> fl 0.80)"
    and "(fidelity_band fl f = Good) = (fl 0.60 \<le> f \<and> f < fl 0.80)"
    and "(fidelity_band fl f = Moderate) = (fl 0.40 \<le> f \<and> f < fl 0.60)"
    and "(fidelity_band fl f = Poor) = (f < fl 0.40)"
proof -
  from assms have "fl 0.40 \<le> fl 0.60" and "fl 0.60 \<le> fl 0.80"
    by (simp_all add: rounding_mono)
  then show "(fidelity_band fl f = Excellent) = (f \<ge> fl 0.80)"
    and "(fidelity_band fl f = Good) = (fl 0.60 \<le> f \<and> f < fl 0.80)"
    and "(fidelity_band fl f = Moderate) = (fl 0.40 \<le> f \<and> f < fl 0.60)"
    and "(fidelity_band fl f = Poor) = (f < fl 0.40)"
    by (auto simp: fidelity_band_def)
qed

lemma rounding_unit_interval:
  assumes "rounding fl" and "0 \<le> x" and "x \<le> 1"
  shows "0 \<le> fl x \<and> fl x \<le> 1"
proof -
  from assms have "fl 0 \<le> fl x" and "fl x \<le> fl 1"
    by (simp_all add: rounding_mono)
  with assms(1) show ?thesis
    by (simp add: rounding_def)
qed

lemma rounding_exact: "rounding (\<lambda>x. x)"
  by (simp add: rounding_def)

section \<open>Analysis\<close>

text \<open>
  Claim C5. For a histogram of non-negative counts whose total is positive,
  \<open>analyze_results\<close> returns the fidelity \<open>counts.get(expected_state, 0) / total_shots\<close>
  (the quotient as Python's division rounds it), and that value lies between 0 and 1.
\<close>

theorem analyze_results_fidelity:
  assumes "rounding fl" and "\<forall>(k, c)\<in>set counts. 0 \<le> c" and "0 < sum_values counts"
  shows "\<exists>r. analyze_results fl counts backend_name expected_state = Inr r
           \<and> Inr (returned_fidelity r) =
               py_truediv fl (dict_get counts expected_state 0) (sum_values counts)
           \<and> returned_fidelity r =
               fl (real_of_int (dict_get counts expected_state 0) / real_of_int (sum_values counts))
           \<and> 0 \<le> returned_fidelity r \<and> returned_fidelity r \<le> 1"
proof -
  let ?c = "dict_get counts expected_state 0" and ?t = "sum_values counts"
  from assms(2,3) have b: "0 \<le> ?c \<and> ?c \<le> ?t"
    by (rule dict_get_bounds)
  with assms(3) have "0 \<le> real_of_int ?c / real_of_int ?t" "real_of_int ?c / real_of_int ?t \<le> 1"
    by simp_all
  with assms(1) have "0 \<le> fl (real_of_int ?c / real_of_int ?t)
      \<and> fl (real_of_int ?c / real_of_int ?t) \<le> 1"
    by (rule rounding_unit_interval)
  with assms(3) show ?thesis
    by (simp add: analyze_results_def py_truediv_def Let_def)
qed

theorem analyze_results_fidelity_witness:
  "rounding (\<lambda>x. x) \<and> sum_values grover_counts = 1000 \<and> dict_get grover_counts ''11'' 0 = 820
   \<and> analyze_results (\<lambda>x. x) grover_counts ''ibm_real2'' ''11''
       = Inr \<lparr>returned_fidelity = 820 / 1000, printed_band = Excellent\<rparr>"
proof -
  have nonneg: "\<forall>(k, c)\<in>set grover_counts. 0 \<le> c"
    by (simp add: grover_counts_def)
  have total: "0 < sum_values grover_counts"
    by (simp add: grover_counts_def sum_values_def)
  from analyze_results_fidelity [OF rounding_exact nonneg total, of "''ibm_real2''" "''11''"]
  show ?thesis
    by (simp add: rounding_exact analyze_results_def py_truediv_def fidelity_band_def
        grover_counts_def sum_values_def dict_get_def)
qed

text \<open>
  Claim C6 says that a histogram whose counts sum to 0 gives fidelity 0 behind an explicit
  guard. The source has no guard: on the empty histogram the division of line 144 raises
  \<open>ZeroDivisionError\<close> and nothing is returned.
\<close>

theorem analyze_results_zero_shots_counterexample:
  "sum_values [] = 0
   \<and> analyze_results (\<lambda>x. x) [] ''ibm_real2'' ''11'' = Inl ZeroDivisionError
   \<and> analyze_results (\<lambda>x. x) [] ''ibm_real2'' ''11''
       \<noteq> Inr \<lparr>returned_fidelity = 0, printed_band = Poor\<rparr>"
  by (simp add: analyze_results_def py_truediv_def sum_values_def dict_get_def)

text \<open>
  Claim C6, as the code has it: whenever the counts sum to 0, \<open>analyze_results\<close> raises
  \<open>ZeroDivisionError\<close> at the fidelity division and returns no fidelity.
\<close>

theorem analyze_results_zero_shots:
  assumes "sum_values counts = 0"
  shows "analyze_results fl counts backend_name expected_state = Inl ZeroDivisionError"
  using assms by (simp add: analyze_results_def py_truediv_def)

theorem analyze_results_zero_shots_witness:
  "sum_values [(''11'', 0), (''00'', 0)] = 0
   \<and> analyze_results (\<lambda>x. x) [(''11'', 0), (''00'', 0)] ''ibm_real2'' ''11''
       = Inl ZeroDivisionError"
proof -
  have z: "sum_values [(''11'', 0), (''00'', 0)] = 0"
    by (simp add: sum_values_def)
  from analyze_results_zero_shots [OF z] z show ?thesis
    by simp
qed

text \<open>
  Claim C7. The interpretation printed for a computed fidelity is the excellent one
  exactly from 0.80 upwards, the good one exactly on [0.60, 0.80), the moderate one
  exactly on [0.40, 0.60), and the poor one exactly below 0.40 (the bounds being the
  literals of the source); the histogram of the specification's scenario, with expected
  state 11, gives fidelity 0.82 and the excellent band.
\<close>

theorem analyze_results_band:
  assumes "rounding fl"
  shows "(analyze_results fl counts backend_name expected_state = Inr r \<longrightarrow>
      (printed_band r = Excellent) = (returned_fidelity r \<ge> fl 0.80)
      \<and> (printed_band r = Good) = (fl 0.60 \<le> returned_fidelity r \<and> returned_fidelity r < fl 0.80)
      \<and> (printed_band r = Moderate) = (fl 0.40 \<le> returned_fidelity r \<and> returned_fidelity r < fl 0.60)
      \<and> (printed_band r = Poor) = (returned_fidelity r < fl 0.40))
   \<and> analyze_results fl grover_counts backend_name ''11''
       = Inr \<lparr>returned_fidelity = fl 0.82, printed_band = Excellent\<rparr>"
proof -
  have "printed_band r = fidelity_band fl (returned_fidelity r)"
    if "analyze_results fl counts backend_name expected_state = Inr r"
    using that by (auto simp: analyze_results_def Let_def split: sum.splits)
  moreover have "analyze_results fl grover_counts backend_name ''11''
       = Inr \<lparr>returned_fidelity = fl 0.82, printed_band = Excellent\<rparr>"
  proof -
    from assms have "fl 0.80 \<le> fl 0.82"
      by (simp add: rounding_mono)
    then show ?thesis
      by (simp add: analyze_results_def py_truediv_def sum_values_def dict_get_def
          grover_counts_def fidelity_band_def)
  qed
  ultimately show ?thesis
    by (simp add: fidelity_band_cases [OF assms])
qed

theorem analyze_results_band_witness:
  "rounding (\<lambda>x. x)
   \<and> analyze_results (\<lambda>x. x) [(''11'', 5), (''00'', 5)] ''ibm_real3'' ''11''
     = Inr \<lparr>returned_fidelity = 0.5, printed_band = Moderate\<rparr>
   \<and> analyze_results (\<lambda>x. x) grover_counts ''ibm_real3'' ''11''
     = Inr \<lparr>returned_fidelity = 0.82, printed_band = Excellent\<rparr>"
proof -
  have run: "analyze_results (\<lambda>x. x) [(''11'', 5), (''00'', 5)] ''ibm_real3'' ''11''
     = Inr \<lparr>returned_fidelity = 0.5, printed_band = Moderate\<rparr>"
    by (simp add: analyze_results_def py_truediv_def sum_values_def dict_get_def fidelity_band_def)
  from analyze_results_band [OF rounding_exact, of "[(''11'', 5), (''00'', 5)]" "''ibm_real3''" "''11''"
      "\<lparr>returned_fidelity = 0.5, printed_band = Moderate\<rparr>"] run
  show ?thesis by (simp add: rounding_exact)
qed

section \<open>Credentials\<close>

text \<open>
  Claim C8. \<open>load_ibm_credentials\<close> raises the \<open>ValueError\<close> whose message starts with
  \<open>IBM_API_KEY\<close> when that variable is absent or empty, the one whose message starts with
  \<open>QISKIT_IBM_INSTANCE\<close> when the key is there and the instance is absent or empty, and
  returns the two values as read when both are present and non-empty.
\<close>

theorem load_ibm_credentials_cases:
  "(environ ''IBM_API_KEY'' = None \<or> environ ''IBM_API_KEY'' = Some [] \<longrightarrow>
      load_ibm_credentials environ = Inl missing_api_key)
   \<and> (environ ''IBM_API_KEY'' = Some api_key \<and> api_key \<noteq> []
        \<and> (environ ''QISKIT_IBM_INSTANCE'' = None \<or> environ ''QISKIT_IBM_INSTANCE'' = Some []) \<longrightarrow>
      load_ibm_credentials environ = Inl missing_instance)
   \<and> (environ ''IBM_API_KEY'' = Some api_key \<and> api_key \<noteq> []
        \<and> environ ''QISKIT_IBM_INSTANCE'' = Some instance \<and> instance \<noteq> [] \<longrightarrow>
      load_ibm_credentials environ = Inr (api_key, instance))
   \<and> (\<exists>rest. missing_api_key = ValueError (''IBM_API_KEY'' @ rest))
   \<and> (\<exists>rest. missing_instance = ValueError (''QISKIT_IBM_INSTANCE'' @ rest))"
  by (auto simp: load_ibm_credentials_def missing_api_key_def missing_instance_def)

theorem load_ibm_credentials_cases_witness:
  "load_ibm_credentials full_environ = Inr (''k3y'', ''crn:v1:demo'')
   \<and> load_ibm_credentials keyless_environ = Inl missing_api_key
   \<and> load_ibm_credentials blank_instance_environ = Inl missing_instance"
proof -
  have "load_ibm_credentials full_environ = Inr (''k3y'', ''crn:v1:demo'')"
    using load_ibm_credentials_cases [of full_environ "''k3y''" "''crn:v1:demo''"]
    by (simp add: full_environ_def)
  moreover have "load_ibm_credentials keyless_environ = Inl missing_api_key"
    using load_ibm_credentials_cases [of keyless_environ]
    by (simp add: keyless_environ_def)
  moreover have "load_ibm_credentials blank_instance_environ = Inl missing_instance"
    using load_ibm_credentials_cases [of blank_instance_environ "''k3y''"]
    by (simp add: blank_instance_environ_def)
  ultimately show ?thesis by simp
qed

section \<open>Retrieval\<close>

text \<open>
  Claim C9. Given a service, \<open>retrieve_job\<close> looks the job up and asks for its status.
  A failure of the lookup, of the status query or of the result fetch leaves the function
  as the very exception that was raised; a status named \<open>DONE\<close> returns the fetched
  histogram; any other status returns \<open>None\<close> without raising.
\<close>

theorem retrieve_job_cases:
  "(job_of service job_id = Inl e \<longrightarrow>
      retrieve_job new_service job_id (Some service) = Inl e)
   \<and> (job_of service job_id = Inr job \<and> job_status job = Inl e \<longrightarrow>
      retrieve_job new_service job_id (Some service) = Inl e)
   \<and> (job_of service job_id = Inr job \<and> job_status job = Inr ''DONE''
        \<and> job_result job = Inr counts \<longrightarrow>
      retrieve_job new_service job_id (Some service) = Inr (Some counts))
   \<and> (job_of service job_id = Inr job \<and> job_status job = Inr ''DONE''
        \<and> job_result job = Inl e \<longrightarrow>
      retrieve_job new_service job_id (Some service) = Inl e)
   \<and> (job_of service job_id = Inr job \<and> job_status job = Inr status_name
        \<and> status_name \<noteq> ''DONE'' \<longrightarrow>
      retrieve_job new_service job_id (Some service) = Inr None)"
  by (simp add: retrieve_job_def retrieve_job_body_def)

theorem retrieve_job_cases_witness:
  "retrieve_job (Inl (SdkError ''offline'')) ''job-done'' (Some job_service) = Inr (Some grover_counts)
   \<and> retrieve_job (Inl (SdkError ''offline'')) ''job-running'' (Some job_service) = Inr None
   \<and> retrieve_job (Inl (SdkError ''offline'')) ''job-unknown'' (Some job_service)
       = Inl (SdkError ''job not found'')"
proof -
  let ?off = "Inl (SdkError ''offline'') :: py_error + service"
  have "retrieve_job ?off ''job-done'' (Some job_service) = Inr (Some grover_counts)"
    using retrieve_job_cases [of job_service "''job-done''" _ ?off done_job grover_counts]
    by (simp add: job_service_def done_job_def)
  moreover have "retrieve_job ?off ''job-running'' (Some job_service) = Inr None"
    using retrieve_job_cases [of job_service "''job-running''" _ ?off running_job _ "''RUNNING''"]
    by (simp add: job_service_def running_job_def)
  moreover have "retrieve_job ?off ''job-unknown'' (Some job_service) = Inl (SdkError ''job not found'')"
    using retrieve_job_cases [of job_service "''job-unknown''" "SdkError ''job not found''" ?off]
    by (simp add: job_service_def)
  ultimately show ?thesis by simp
qed

section \<open>Missing attributes\<close>

text \<open>
  Claim C10. A backend without a \<open>simulator\<close> attribute is left out by
  \<open>list_available_qpus\<close> and by the candidate loop, and is never returned. A hardware
  backend with enough qubits whose status has no \<open>operational\<close> attribute is a
  candidate, and is the backend returned when it is the only one of the service. A
  candidate whose status has no \<open>pending_jobs\<close> attribute is recorded with queue depth
  0; when the choice falls to the minimum queue, the backend returned then has an
  effective queue depth of at most 0, so it is never one that reports a positive queue.
\<close>

theorem missing_attributes:
  "(simulator b = None \<longrightarrow>
      b \<notin> set (list_available_qpus service)
      \<and> b \<notin> info_backend ` set (available_qpus (backends service) min_qubits)
      \<and> select_best_qpu service preferred_qpus min_qubits \<noteq> Inr b)
   \<and> (b \<in> set (backends service) \<and> simulator b = Some False \<and> num_qubits b \<ge> min_qubits
        \<and> operational (status b) = None \<longrightarrow>
      b \<in> info_backend ` set (available_qpus (backends service) min_qubits)
      \<and> (backends service = [b] \<longrightarrow> select_best_qpu service preferred_qpus min_qubits = Inr b))
   \<and> (q \<in> set (available_qpus (backends service) min_qubits)
        \<and> pending_jobs (status (info_backend q)) = None \<longrightarrow>
      info_pending_jobs q = 0
      \<and> ((\<forall>prefs. preferred_qpus = Some prefs \<longrightarrow>
             (\<forall>p\<in>set prefs. \<forall>c\<in>set (available_qpus (backends service) min_qubits).
                 info_name c \<noteq> p)) \<longrightarrow>
          (\<exists>chosen. select_best_qpu service preferred_qpus min_qubits = Inr chosen
             \<and> pending_of (status chosen) \<le> 0
             \<and> (\<forall>n. pending_jobs (status chosen) = Some n \<longrightarrow> n \<le> 0))))"
proof (intro conjI impI)
  assume none: "simulator b = None"
  then have hw: "\<not> is_hardware b"
    by (simp add: is_hardware_def)
  then show "b \<notin> set (list_available_qpus service)"
    by (simp add: list_available_qpus_def)
  from hw show cand: "b \<notin> info_backend ` set (available_qpus (backends service) min_qubits)"
    using available_qpus_member by blast
  show "select_best_qpu service preferred_qpus min_qubits \<noteq> Inr b"
    using cand select_best_qpu_candidate by fastforce
next
  assume a: "b \<in> set (backends service) \<and> simulator b = Some False \<and> num_qubits b \<ge> min_qubits
        \<and> operational (status b) = None"
  then show "b \<in> info_backend ` set (available_qpus (backends service) min_qubits)"
    by (intro available_qpus_complete) (simp_all add: is_hardware_def operational_of_def)
  assume "backends service = [b]"
  with a show "select_best_qpu service preferred_qpus min_qubits = Inr b"
    by (cases preferred_qpus)
      (auto simp: select_best_qpu_def is_hardware_def operational_of_def split: option.splits
        dest: find_result find_preferred_member)
next
  assume a: "q \<in> set (available_qpus (backends service) min_qubits)
        \<and> pending_jobs (status (info_backend q)) = None"
  then show zero: "info_pending_jobs q = 0"
    using available_qpus_member [of q "backends service" min_qubits]
    by (simp add: pending_of_def)
  assume nomatch: "\<forall>prefs. preferred_qpus = Some prefs \<longrightarrow>
             (\<forall>p\<in>set prefs. \<forall>c\<in>set (available_qpus (backends service) min_qubits).
                 info_name c \<noteq> p)"
  from a obtain c cs where av: "available_qpus (backends service) min_qubits = c # cs"
    by (cases "available_qpus (backends service) min_qubits") auto
  let ?best = "min_by_key info_pending_jobs c cs"
  have sel: "select_best_qpu service preferred_qpus min_qubits = Inr (info_backend ?best)"
    using av nomatch by (intro select_best_qpu_unmatched) simp_all
  have "?best \<in> set (c # cs)"
    by (rule min_by_key_member)
  then have pend: "info_pending_jobs ?best = pending_of (status (info_backend ?best))"
    using available_qpus_member [of ?best "backends service" min_qubits] av by simp
  from a av have "info_pending_jobs ?best \<le> info_pending_jobs q"
    by (intro min_by_key_least) simp
  with zero pend have "pending_of (status (info_backend ?best)) \<le> 0"
    by simp
  then have "pending_of (status (info_backend ?best)) \<le> 0
      \<and> (\<forall>n. pending_jobs (status (info_backend ?best)) = Some n \<longrightarrow> n \<le> 0)"
    by (auto simp: pending_of_def)
  with sel show "\<exists>chosen. select_best_qpu service preferred_qpus min_qubits = Inr chosen
             \<and> pending_of (status chosen) \<le> 0
             \<and> (\<forall>n. pending_jobs (status chosen) = Some n \<longrightarrow> n \<le> 0)"
    by blast
qed

theorem missing_attributes_witness:
  "simulator no_simulator_attr = None
   \<and> no_simulator_attr \<notin> set (list_available_qpus bare_service)
   \<and> select_best_qpu bare_service (Some [''ibm_plain'']) 2 \<noteq> Inr no_simulator_attr
   \<and> bare_status \<in> set (backends bare_service) \<and> simulator bare_status = Some False
   \<and> num_qubits bare_status \<ge> 2
   \<and> operational (status bare_status) = None \<and> pending_jobs (status bare_status) = None
   \<and> pending_jobs (status ibm_real3) = Some 1
   \<and> map info_backend (available_qpus (backends bare_service) 2) = [ibm_real3, bare_status]
   \<and> map info_pending_jobs (available_qpus (backends bare_service) 2) = [1, 0]
   \<and> select_best_qpu bare_service None 2 = Inr bare_status"
proof -
  let ?q = "\<lparr>info_backend = bare_status, info_name = ''ibm_bare'', info_qubits = 5,
             info_pending_jobs = 0\<rparr>"
  have absent: "simulator no_simulator_attr = None"
    by (simp add: no_simulator_attr_def)
  have excluded: "no_simulator_attr \<notin> set (list_available_qpus bare_service)
      \<and> select_best_qpu bare_service (Some [''ibm_plain'']) 2 \<noteq> Inr no_simulator_attr"
    using absent
      missing_attributes [where b = no_simulator_attr and service = bare_service
        and min_qubits = 2 and preferred_qpus = "Some [''ibm_plain'']"]
    by simp
  have bare: "bare_status \<in> set (backends bare_service) \<and> simulator bare_status = Some False
      \<and> num_qubits bare_status \<ge> 2
      \<and> operational (status bare_status) = None \<and> pending_jobs (status bare_status) = None
      \<and> pending_jobs (status ibm_real3) = Some 1"
    by (simp add: fixture_defs)
  have cands: "available_qpus (backends bare_service) 2 =
      [\<lparr>info_backend = ibm_real3, info_name = ''ibm_real3'', info_qubits = 5, info_pending_jobs = 1\<rparr>, ?q]"
    by (simp add: fixture_defs)
  have member: "?q \<in> set (available_qpus (backends bare_service) 2)
      \<and> pending_jobs (status (info_backend ?q)) = None"
    by (simp add: cands) (simp add: bare_status_def)
  have chosen: "\<exists>chosen. select_best_qpu bare_service None 2 = Inr chosen
      \<and> pending_of (status chosen) \<le> 0"
    using member bare
      missing_attributes [where b = bare_status and service = bare_service
        and min_qubits = 2 and preferred_qpus = None and q = ?q]
    by auto
  have sel: "select_best_qpu bare_service None 2 = Inr bare_status"
    by (simp add: select_best_qpu_def cands)
  from absent excluded bare cands chosen sel show ?thesis
    by simp
qed

end
